theory Spec2Isabelle
  imports Complex_Main "HOL-Library.Word"
begin

section \<open>The STL analyser \<^verbatim>\<open>scripts/analyze-stl.py\<close>\<close>

text \<open>
  The development follows the script function by function.  Conventions of the embedding:
  \<^item> a file is the list of its bytes; \<^verbatim>\<open>f.read(n)\<close> on an open file is \<open>take n\<close> of the
    unread bytes, and the unread bytes become \<open>drop n\<close> of them;
  \<^item> a Python \<^verbatim>\<open>float\<close> is a \<open>real\<close>: arithmetic is exact, and the values \<^verbatim>\<open>nan\<close> and
    \<^verbatim>\<open>inf\<close> are outside the model.  The decoding of four bytes into a float
    (\<^verbatim>\<open>struct.unpack\<close> with format \<^verbatim>\<open>f\<close>), the conversion \<^verbatim>\<open>float(s)\<close> of a string and the
    decoding of a text file into lines are functions of the Python runtime, not of the
    script: they are parameters of the model (record \<open>runtime\<close>);
  \<^item> a Python \<^verbatim>\<open>str\<close> is the list of its code points (\<open>nat list\<close>);
  \<^item> an exception is a value \<open>Inl e\<close> of a sum type; the script catches none.
\<close>

subsection \<open>Bytes, strings and exceptions\<close>

type_synonym byte = "8 word"

type_synonym pystr = "nat list"

definition lit :: "string \<Rightarrow> pystr" where
  "lit s = map of_char s"

datatype exn =
    StructError   \<comment> \<open>\<^verbatim>\<open>struct.error\<close>: the buffer given to \<^verbatim>\<open>struct.unpack\<close> has the wrong size\<close>
  | IndexError    \<comment> \<open>a list index out of range\<close>
  | ValueError    \<comment> \<open>\<^verbatim>\<open>float(s)\<close> on a string that is no number\<close>
  | DecodeError   \<comment> \<open>the text layer could not decode the file\<close>
  | ZeroDivisionError

definition startswith :: "'a list \<Rightarrow> 'a list \<Rightarrow> bool" where
  "startswith s p = (take (length p) s = p)"

subsection \<open>Triangles\<close>

type_synonym 'f point = "'f \<times> 'f \<times> 'f"

text \<open>A triangle is the tuple \<^verbatim>\<open>(normal, v1, v2, v3)\<close>.\<close>

type_synonym 'f triangle = "'f point \<times> 'f point \<times> 'f point \<times> 'f point"

definition px :: "'f point \<Rightarrow> 'f" where "px v = fst v"
definition py :: "'f point \<Rightarrow> 'f" where "py v = fst (snd v)"
definition pz :: "'f point \<Rightarrow> 'f" where "pz v = snd (snd v)"

definition tri_normal :: "'f triangle \<Rightarrow> 'f point" where
  "tri_normal t = fst t"

text \<open>\<^verbatim>\<open>t[1:]\<close>: the three vertices of a triangle, in order.\<close>

definition tri_verts :: "'f triangle \<Rightarrow> 'f point list" where
  "tri_verts t = (case t of (n, a, b, c) \<Rightarrow> [a, b, c])"

subsection \<open>\<^verbatim>\<open>read_binary_stl\<close>\<close>

text \<open>Four bytes read as a little-endian unsigned integer (format \<^verbatim>\<open><I\<close>).\<close>

definition le_u32 :: "byte list \<Rightarrow> 32 word" where
  "le_u32 bs = foldr (\<lambda>b acc. word_of_nat (unat b) + 256 * acc) bs 0"

text \<open>
  \<^verbatim>\<open>struct.unpack("<I", data)[0]\<close>: raises \<^verbatim>\<open>struct.error\<close> unless \<open>data\<close> has exactly
  four bytes.
\<close>

definition unpack_I :: "byte list \<Rightarrow> exn + nat" where
  "unpack_I data = (if length data = 4 then Inr (unat (le_u32 data)) else Inl StructError)"

text \<open>
  \<^verbatim>\<open>struct.unpack("<12fH", data)\<close> on a 50-byte record, followed by the grouping of the
  twelve floats into normal and vertices.  Float number \<open>i\<close> is decoded from the bytes
  \<open>4 i .. 4 i + 3\<close>; the last two bytes (the attribute, format \<^verbatim>\<open>H\<close>) are not used.
\<close>

definition unpack_val :: "(32 word \<Rightarrow> 'f) \<Rightarrow> byte list \<Rightarrow> nat \<Rightarrow> 'f" where
  "unpack_val uf data i = uf (le_u32 (take 4 (drop (4 * i) data)))"

definition unpack_triangle :: "(32 word \<Rightarrow> 'f) \<Rightarrow> byte list \<Rightarrow> 'f triangle" where
  "unpack_triangle uf data =
     (let vals = unpack_val uf data
      in ((vals 0, vals 1, vals 2),
          (vals 3, vals 4, vals 5),
          (vals 6, vals 7, vals 8),
          (vals 9, vals 10, vals 11)))"

text \<open>
  The loop \<^verbatim>\<open>for _ in range(num_tri)\<close>: the first argument counts the iterations left,
  the second is the unread part of the file, the third the list \<open>triangles\<close>.
\<close>

fun read_triangles ::
  "(32 word \<Rightarrow> 'f) \<Rightarrow> nat \<Rightarrow> byte list \<Rightarrow> 'f triangle list \<Rightarrow> 'f triangle list" where
  "read_triangles uf 0 rest triangles = triangles"
| "read_triangles uf (Suc n) rest triangles =
     (let data = take 50 rest
      in if length data < 50 then triangles
         else read_triangles uf n (drop 50 rest) (triangles @ [unpack_triangle uf data]))"

definition read_binary_stl ::
  "(32 word \<Rightarrow> 'f) \<Rightarrow> byte list \<Rightarrow> exn + (byte list \<times> 'f triangle list)" where
  "read_binary_stl uf file =
     (let header = take 80 file;
          rest = drop 80 file
      in case unpack_I (take 4 rest) of
           Inl e \<Rightarrow> Inl e
         | Inr num_tri \<Rightarrow> Inr (header, read_triangles uf num_tri (drop 4 rest) []))"

subsection \<open>\<^verbatim>\<open>is_ascii_stl\<close>\<close>

text \<open>
  \<^verbatim>\<open>bytes.lstrip()\<close> removes the leading ASCII whitespace: space, tab, line feed,
  carriage return, vertical tab and form feed.
\<close>

definition bytes_space :: "byte \<Rightarrow> bool" where
  "bytes_space b = (b = 32 \<or> b = 9 \<or> b = 10 \<or> b = 13 \<or> b = 11 \<or> b = 12)"

definition lstrip_bytes :: "byte list \<Rightarrow> byte list" where
  "lstrip_bytes bs = dropWhile bytes_space bs"

text \<open>The literal \<^verbatim>\<open>b"solid"\<close>.\<close>

definition solid :: "byte list" where
  "solid = map of_char ''solid''"

definition is_ascii_stl :: "byte list \<Rightarrow> bool" where
  "is_ascii_stl file =
     (let start = lstrip_bytes (take 80 file)
      in startswith start solid \<and> 0 \<notin> set start)"

subsection \<open>\<^verbatim>\<open>read_ascii_stl\<close>\<close>

text \<open>
  What the script takes from the Python runtime: \<open>unpack_f\<close> decodes the little-endian
  32-bit pattern of a float; \<open>text_lines\<close> is \<^verbatim>\<open>open(path, "r").readlines()\<close> on the bytes
  of a file (decoding and newline translation); \<open>to_float\<close> is \<^verbatim>\<open>float(s)\<close>, with \<open>None\<close>
  where Python raises \<^verbatim>\<open>ValueError\<close>.
\<close>

record runtime =
  unpack_f :: "32 word \<Rightarrow> real"
  text_lines :: "byte list \<Rightarrow> exn + pystr list"
  to_float :: "pystr \<Rightarrow> real option"

definition bind_exn :: "exn + 'a \<Rightarrow> ('a \<Rightarrow> exn + 'b) \<Rightarrow> exn + 'b" where
  "bind_exn m f = (case m of Inl e \<Rightarrow> Inl e | Inr x \<Rightarrow> f x)"

text \<open>
  The code points for which \<^verbatim>\<open>str.isspace\<close> holds; \<^verbatim>\<open>str.strip()\<close> and \<^verbatim>\<open>str.split()\<close>
  without arguments treat exactly these as whitespace.
\<close>

definition str_space :: "nat \<Rightarrow> bool" where
  "str_space c =
     ((9 \<le> c \<and> c \<le> 13) \<or> (28 \<le> c \<and> c \<le> 32) \<or> c = 133 \<or> c = 160 \<or> c = 5760 \<or>
      (8192 \<le> c \<and> c \<le> 8202) \<or> c = 8232 \<or> c = 8233 \<or> c = 8239 \<or> c = 8287 \<or> c = 12288)"

definition strip :: "pystr \<Rightarrow> pystr" where
  "strip s = rev (dropWhile str_space (rev (dropWhile str_space s)))"

text \<open>
  \<^verbatim>\<open>s.split()\<close>: the maximal runs of non-whitespace, in order.  The second argument is the
  run being collected.
\<close>

fun split_run :: "pystr \<Rightarrow> pystr \<Rightarrow> pystr list" where
  "split_run [] cur = (if cur = [] then [] else [cur])"
| "split_run (c # s) cur =
     (if str_space c then (if cur = [] then split_run s [] else cur # split_run s [])
      else split_run s (cur @ [c]))"

definition split :: "pystr \<Rightarrow> pystr list" where
  "split s = split_run s []"

text \<open>\<^verbatim>\<open>float(parts[i])\<close>: the index is checked first, then the string is converted.\<close>

definition float_at :: "runtime \<Rightarrow> pystr list \<Rightarrow> nat \<Rightarrow> exn + real" where
  "float_at rt parts i =
     (if i < length parts
      then (case to_float rt (parts ! i) of None \<Rightarrow> Inl ValueError | Some r \<Rightarrow> Inr r)
      else Inl IndexError)"

definition float3_at :: "runtime \<Rightarrow> pystr list \<Rightarrow> nat \<Rightarrow> exn + real point" where
  "float3_at rt parts i =
     bind_exn (float_at rt parts i) (\<lambda>a.
     bind_exn (float_at rt parts (i + 1)) (\<lambda>b.
     bind_exn (float_at rt parts (i + 2)) (\<lambda>c. Inr (a, b, c))))"

text \<open>
  The state of the loop over the lines: \<open>normal\<close> (\<open>None\<close> until the first
  \<^verbatim>\<open>facet normal\<close>), \<open>verts\<close> and \<open>triangles\<close>.  A tuple is true in a condition, so
  \<^verbatim>\<open>normal and ...\<close> tests \<open>normal \<noteq> None\<close>.
\<close>

type_synonym ascii_state = "real point option \<times> real point list \<times> real triangle list"

definition ascii_line :: "runtime \<Rightarrow> ascii_state \<Rightarrow> pystr \<Rightarrow> exn + ascii_state" where
  "ascii_line rt st raw =
     (case st of (normal, verts, triangles) \<Rightarrow>
        let line = strip raw
        in if startswith line (lit ''facet normal'') then
             bind_exn (float3_at rt (split line) 2) (\<lambda>n. Inr (Some n, [], triangles))
           else if startswith line (lit ''vertex'') then
             bind_exn (float3_at rt (split line) 1) (\<lambda>v. Inr (normal, verts @ [v], triangles))
           else if startswith line (lit ''endfacet'') \<and> normal \<noteq> None \<and> length verts = 3 then
             Inr (normal, verts, triangles @ [(the normal, verts ! 0, verts ! 1, verts ! 2)])
           else Inr st)"

fun ascii_lines :: "runtime \<Rightarrow> ascii_state \<Rightarrow> pystr list \<Rightarrow> exn + ascii_state" where
  "ascii_lines rt st [] = Inr st"
| "ascii_lines rt st (l # ls) = bind_exn (ascii_line rt st l) (\<lambda>st'. ascii_lines rt st' ls)"

text \<open>
  The header is returned as the stripped first line (the script encodes it to bytes; no
  caller reads it).
\<close>

definition read_ascii_stl :: "runtime \<Rightarrow> byte list \<Rightarrow> exn + (pystr \<times> real triangle list)" where
  "read_ascii_stl rt file =
     bind_exn (text_lines rt file) (\<lambda>lines.
       let header = (case lines of [] \<Rightarrow> [] | l # _ \<Rightarrow> strip l)
       in bind_exn (ascii_lines rt (None, [], []) lines) (\<lambda>st.
            case st of (normal, verts, triangles) \<Rightarrow> Inr (header, triangles)))"

subsection \<open>Python built-ins used by the analysis\<close>

text \<open>
  \<^verbatim>\<open>min\<close> and \<^verbatim>\<open>max\<close> of a list.  On the empty list Python raises; every call in the
  script is behind a test that the list is not empty, and the functions are given for
  non-empty lists only.
\<close>

fun py_min :: "'a::linorder list \<Rightarrow> 'a" where
  "py_min (x # xs) = fold min xs x"

fun py_max :: "'a::linorder list \<Rightarrow> 'a" where
  "py_max (x # xs) = fold max xs x"

text \<open>\<^verbatim>\<open>int(x)\<close> on a float truncates towards zero.\<close>

definition py_int :: "real \<Rightarrow> int" where
  "py_int x = (if 0 \<le> x then \<lfloor>x\<rfloor> else \<lceil>x\<rceil>)"

text \<open>\<^verbatim>\<open>round(x, 1)\<close>: to one decimal, a tie going to the even last digit.\<close>

definition py_round1 :: "real \<Rightarrow> real" where
  "py_round1 x =
     (let y = x * 10;
          f = \<lfloor>y\<rfloor>;
          r = y - of_int f
      in of_int (if r < 1 / 2 then f else if 1 / 2 < r then f + 1
                 else if even f then f else f + 1) / 10)"

text \<open>
  A dictionary is an association list in insertion order: \<^verbatim>\<open>d.get(k, v)\<close>, \<^verbatim>\<open>d[k] = v\<close>
  (in place for a key that is present, at the end for a new one) and \<^verbatim>\<open>k in d\<close>.
\<close>

definition dict_get :: "('k \<times> 'v) list \<Rightarrow> 'k \<Rightarrow> 'v \<Rightarrow> 'v" where
  "dict_get d k v = (case map_of d k of None \<Rightarrow> v | Some w \<Rightarrow> w)"

fun dict_set :: "('k \<times> 'v) list \<Rightarrow> 'k \<Rightarrow> 'v \<Rightarrow> ('k \<times> 'v) list" where
  "dict_set [] k v = [(k, v)]"
| "dict_set (p # d) k v = (if fst p = k then (k, v) # d else p # dict_set d k v)"

definition dict_has :: "('k \<times> 'v) list \<Rightarrow> 'k \<Rightarrow> bool" where
  "dict_has d k = (map_of d k \<noteq> None)"

text \<open>\<^verbatim>\<open>d[k] = d.get(k, 0) + 1\<close>.\<close>

definition dict_incr :: "('k \<times> nat) list \<Rightarrow> 'k \<Rightarrow> ('k \<times> nat) list" where
  "dict_incr d k = dict_set d k (dict_get d k 0 + 1)"

subsection \<open>Printed text\<close>

text \<open>
  A printed line is the sequence of the pieces of its f-string: literal text, an
  interpolated string, and a number together with its format specification (the decimal
  rendering of numbers is Python's and is not modelled).  The output of the program is
  the list of its lines; \<^verbatim>\<open>print()\<close> is the empty line.
\<close>

datatype piece =
    Str string
  | Val pystr
  | Flt string real
  | Dec string int

type_synonym line = "piece list"

text \<open>A formatted number has at least one character; a string may be empty.\<close>

fun piece_nonempty :: "piece \<Rightarrow> bool" where
  "piece_nonempty (Str s) = (s \<noteq> [])"
| "piece_nonempty (Val s) = (s \<noteq> [])"
| "piece_nonempty (Flt f x) = True"
| "piece_nonempty (Dec f n) = True"

text \<open>The truth value of a string in a condition: it is not empty.\<close>

definition truthy :: "line \<Rightarrow> bool" where
  "truthy l = list_ex piece_nonempty l"

subsection \<open>\<^verbatim>\<open>ascii_cross_section\<close>\<close>

text \<open>
  The grid is a list of \<open>rows\<close> rows of \<open>cols\<close> characters.  \<^verbatim>\<open>[' '] * cols\<close> and
  \<^verbatim>\<open>range(rows)\<close> are empty for a count that is not positive.
\<close>

definition mark :: "int \<Rightarrow> int \<Rightarrow> string list \<Rightarrow> int \<Rightarrow> int \<Rightarrow> string list" where
  "mark rows cols grid r c =
     (if 0 \<le> r \<and> r < rows \<and> 0 \<le> c \<and> c < cols
      then grid[nat r := (grid ! nat r)[nat c := CHR ''#'']]
      else grid)"

definition ascii_cross_section ::
  "(real \<times> real) list \<Rightarrow> real \<Rightarrow> real \<Rightarrow> real \<Rightarrow> line \<Rightarrow> exn + line list" where
  "ascii_cross_section verts_2d width height grid_res label =
     (if verts_2d = [] then Inr []
      else if grid_res = 0 then Inl ZeroDivisionError
      else
        let min_x = py_min (map fst verts_2d);
            min_y = py_min (map snd verts_2d);
            cols = py_int (width / grid_res) + 2;
            rows = py_int (height / grid_res) + 2;
            grid0 = replicate (nat rows) (replicate (nat cols) CHR '' '');
            grid = foldl (\<lambda>g (x, y).
                     mark rows cols g (py_int ((y - min_y) / grid_res))
                                      (py_int ((x - min_x) / grid_res)))
                   grid0 verts_2d;
            lines0 = (if truthy label then [label] else []);
            body = concat (map (\<lambda>r.
                     let y_val = min_y + real r * grid_res;
                         row = grid ! r
                     in if CHR ''#'' \<in> set row
                        then [[Str ''  y='', Flt ''6.1f'' y_val, Str '' |'', Str row, Str ''|'']]
                        else [])
                   (rev [0..<nat rows]))
        in Inr (lines0 @ body))"

subsection \<open>\<^verbatim>\<open>detect_surfaces\<close>\<close>

text \<open>
  The two dictionaries map a rounded height to a dictionary whose only key is
  \<^verbatim>\<open>"total"\<close>; the model keeps the count under that key.  (\<^verbatim>\<open>avg_y\<close> is computed and
  not used.)
\<close>

definition detect_surfaces ::
  "real triangle list \<Rightarrow> real \<Rightarrow> (real \<times> nat) list \<times> (real \<times> nat) list" where
  "detect_surfaces triangles min_y =
     foldl (\<lambda>(top_faces, bot_faces) tri.
        case tri of (n, a, b, c) \<Rightarrow>
          let avg_z = py_round1 ((pz a + pz b + pz c) / 3)
          in if pz n > 0.9 then (dict_incr top_faces avg_z, bot_faces)
             else if pz n < - 0.9 then (top_faces, dict_incr bot_faces avg_z)
             else (top_faces, bot_faces))
       ([], []) triangles"

subsection \<open>\<^verbatim>\<open>detect_pockets\<close>\<close>

record pocket =
  p_count :: nat
  p_x_range :: "real \<times> real"
  p_y_range :: "real \<times> real"
  p_width :: real
  p_height :: real

type_synonym cell = "int \<times> int"

text \<open>The occupancy grid: the loop over \<open>verts_2d\<close> that counts the hits of each cell.\<close>

definition build_grid :: "real \<Rightarrow> (real \<times> real) list \<Rightarrow> (cell \<times> nat) list" where
  "build_grid grid_size verts_2d =
     foldl (\<lambda>grid (x, y).
        let gx = py_int (x / grid_size);
            gy = py_int (y / grid_size)
        in dict_incr grid (gx, gy))
       [] verts_2d"

text \<open>\<^verbatim>\<open>(c in grid) and grid[c] >= 3\<close>.\<close>

definition dense :: "(cell \<times> nat) list \<Rightarrow> cell \<Rightarrow> bool" where
  "dense grid c = (case map_of grid c of None \<Rightarrow> False | Some n \<Rightarrow> 3 \<le> n)"

text \<open>\<^verbatim>\<open>(c not in grid) or grid[c] < 3\<close>.\<close>

definition sparse :: "(cell \<times> nat) list \<Rightarrow> cell \<Rightarrow> bool" where
  "sparse grid c = (case map_of grid c of None \<Rightarrow> True | Some n \<Rightarrow> n < 3)"

text \<open>
  The generator expression \<^verbatim>\<open>sum(1 for dx in [-1, 0, 1] for dy in [-1, 0, 1] if ...)\<close>.
\<close>

definition neighbors :: "(cell \<times> nat) list \<Rightarrow> int \<Rightarrow> int \<Rightarrow> nat" where
  "neighbors grid gx gy =
     length [(dx, dy). dx \<leftarrow> [- 1, 0, 1], dy \<leftarrow> [- 1, 0, 1], dense grid (gx + dx, gy + dy)]"

text \<open>
  The two nested loops over \<open>gx_range\<close> and \<open>gy_range\<close> that collect \<open>empty_interior\<close>.
\<close>

definition empty_interior :: "real \<Rightarrow> (cell \<times> nat) list \<Rightarrow> (real \<times> real) list" where
  "empty_interior grid_size grid =
     (let all_gx = map (\<lambda>k. fst k) (map fst grid);
          all_gy = map (\<lambda>k. snd k) (map fst grid);
          gx_range = [py_min all_gx .. py_max all_gx];
          gy_range = [py_min all_gy .. py_max all_gy]
      in concat (map (\<lambda>gx. concat (map (\<lambda>gy.
           if sparse grid (gx, gy)
           then (if 4 \<le> neighbors grid gx gy
                 then [(real_of_int gx * grid_size + grid_size / 2,
                        real_of_int gy * grid_size + grid_size / 2)]
                 else [])
           else []) gy_range)) gx_range))"

definition detect_pockets ::
  "real point list \<Rightarrow> real \<Rightarrow> real \<Rightarrow> real \<Rightarrow> real \<Rightarrow> real \<Rightarrow> exn + pocket option" where
  "detect_pockets all_verts min_x min_y z_target tol grid_size =
     (let verts_2d = [(px v - min_x, py v - min_y). v \<leftarrow> all_verts, \<bar>pz v - z_target\<bar> < tol]
      in if length verts_2d < 10 then Inr None
         else if grid_size = 0 then Inl ZeroDivisionError
         else
           let grid = build_grid grid_size verts_2d
           in if grid = [] then Inr None
              else
                let cells = empty_interior grid_size grid
                in if cells = [] then Inr None
                   else
                     let ex = map fst cells;
                         ey = map snd cells
                     in Inr (Some \<lparr> p_count = length cells,
                                    p_x_range = (py_min ex, py_max ex),
                                    p_y_range = (py_min ey, py_max ey),
                                    p_width = py_max ex - py_min ex,
                                    p_height = py_max ey - py_min ey \<rparr>))"

subsection \<open>\<^verbatim>\<open>analyze\<close>: the face normals\<close>

text \<open>
  The loop over the triangles with its four counters \<open>(top, bottom, vertical, angled)\<close>
  (\<open>top\<close> is a constant of HOL, so the first counter is written \<open>top'\<close>).
\<close>

definition count_normal ::
  "nat \<times> nat \<times> nat \<times> nat \<Rightarrow> real triangle \<Rightarrow> nat \<times> nat \<times> nat \<times> nat" where
  "count_normal counts tri =
     (case counts of (top', bottom, vertical, angled) \<Rightarrow>
        let nz = pz (tri_normal tri)
        in if nz > 0.9 then (top' + 1, bottom, vertical, angled)
           else if nz < - 0.9 then (top', bottom + 1, vertical, angled)
           else if \<bar>nz\<bar> < 0.1 then (top', bottom, vertical + 1, angled)
           else (top', bottom, vertical, angled + 1))"

definition count_normals :: "real triangle list \<Rightarrow> nat \<times> nat \<times> nat \<times> nat" where
  "count_normals triangles = foldl count_normal (0, 0, 0, 0) triangles"

subsection \<open>\<^verbatim>\<open>analyze\<close>: the local function \<^verbatim>\<open>analyze_slice\<close>\<close>

record slice_info =
  s_verts :: nat
  s_x_range :: "real \<times> real"
  s_y_range :: "real \<times> real"
  s_width :: real
  s_height :: real
  s_center :: "real \<times> real"
  s_avg_radius :: real
  s_variation :: real
  s_shape :: string

text \<open>
  \<open>all_verts\<close> is the variable of \<^verbatim>\<open>analyze\<close> that the local function reads.  The power
  \<^verbatim>\<open>** 0.5\<close> is taken of a mean of squares, which is not negative: it is the square root.
\<close>

definition analyze_slice :: "real point list \<Rightarrow> real \<Rightarrow> real \<Rightarrow> slice_info option" where
  "analyze_slice all_verts target_z tolerance =
     (let verts = [(px v, py v). v \<leftarrow> all_verts, \<bar>pz v - target_z\<bar> < tolerance]
      in if length verts < 10 then None
         else
           let sx = map fst verts;
               sy = map snd verts;
               cx = (py_min sx + py_max sx) / 2;
               cy = (py_min sy + py_max sy) / 2;
               dists = map (\<lambda>(x, y). sqrt ((x - cx)\<^sup>2 + (y - cy)\<^sup>2)) verts;
               avg_r = sum_list dists / real (length dists);
               std_r = sqrt (sum_list (map (\<lambda>dd. (dd - avg_r)\<^sup>2) dists) / real (length dists));
               variation = (if avg_r > 0 then std_r / avg_r else 0);
               shape = (if variation < 0.1 then ''circular''
                        else if variation < 0.25 then ''roughly circular/oval''
                        else ''irregular'')
           in Some \<lparr> s_verts = length verts,
                     s_x_range = (py_min sx, py_max sx),
                     s_y_range = (py_min sy, py_max sy),
                     s_width = py_max sx - py_min sx,
                     s_height = py_max sy - py_min sy,
                     s_center = (cx, cy),
                     s_avg_radius = avg_r,
                     s_variation = variation,
                     s_shape = shape \<rparr>)"

text \<open>The default of the parameter \<open>tolerance\<close>.\<close>

definition slice_tolerance :: real where
  "slice_tolerance = 0.25"

subsection \<open>\<^verbatim>\<open>analyze\<close>: the recommendation\<close>

text \<open>The bodies of the three branches of the final \<^verbatim>\<open>if\<close>/\<^verbatim>\<open>elif\<close>/\<^verbatim>\<open>else\<close>.\<close>

definition manual_block :: "nat \<Rightarrow> real \<Rightarrow> line list" where
  "manual_block n flat_vertical_pct =
     [[Str ''  >>Manual parametric (simple geometry: '', Dec [] (int n), Str '' faces, '',
       Flt ''.0f'' flat_vertical_pct, Str ''% flat/vertical)''],
      [Str ''    Write OpenSCAD by hand using dimensions above.''],
      [Str ''    Best for: boxes, plates, simple brackets, geometric shapes'']]"

definition reduce_line :: "nat \<Rightarrow> real \<Rightarrow> line" where
  "reduce_line n ratio =
     [Str ''    Consider: --reduce '', Flt ''.1f'' ratio, Str '' to reduce from '',
      Dec '','' (int n), Str '' to ~'', Dec '','' (py_int (real n * ratio)), Str '' faces'']"

definition polyhedron_block :: "nat \<Rightarrow> real \<Rightarrow> line list" where
  "polyhedron_block n curve_pct =
     [[Str ''  >>Polyhedron (complex: '', Dec '','' (int n), Str '' faces, '',
       Flt ''.0f'' curve_pct, Str ''% curved)''],
      [Str ''    python scripts/stl-to-scad.py <file>''],
      [Str ''    Perfect fidelity, ~1s render, valid manifold'']]
     @ (if n > 50000
        then (let ratio = max 0.1 (20000 / real n) in [reduce_line n ratio])
        else [])"

definition sliced_block :: "nat \<Rightarrow> real \<Rightarrow> line list" where
  "sliced_block n curve_pct =
     [[Str ''  >>Sliced cross-section (medium: '', Dec '','' (int n), Str '' faces, '',
       Flt ''.0f'' curve_pct, Str ''% curved)''],
      [Str ''    python scripts/stl-to-scad.py <file> --mode sliced''],
      [Str ''    Approximate but editable in OpenSCAD'']]"

text \<open>
  The chain itself; \<open>n\<close> is \<^verbatim>\<open>len(triangles)\<close>, the other two arguments are the
  variables \<open>flat_vertical_pct\<close> and \<open>curve_pct\<close>.
\<close>

definition recommendation :: "nat \<Rightarrow> real \<Rightarrow> real \<Rightarrow> line list" where
  "recommendation n flat_vertical_pct curve_pct =
     (if n < 500 \<and> flat_vertical_pct > 80 then manual_block n flat_vertical_pct
      else if n > 1000 \<or> curve_pct > 30 then polyhedron_block n curve_pct
      else sliced_block n curve_pct)"

subsection \<open>\<^verbatim>\<open>analyze\<close>: the sections of the report\<close>

text \<open>
  Every function of this subsection returns the lines that one section of \<^verbatim>\<open>analyze\<close>
  prints, one element for each call of \<^verbatim>\<open>print\<close>.  A number printed without a format
  specification has the empty specification.
\<close>

text \<open>\<^verbatim>\<open>os.path.basename\<close>: what follows the last slash.\<close>

definition basename :: "pystr \<Rightarrow> pystr" where
  "basename p = rev (takeWhile (\<lambda>c. c \<noteq> of_char CHR ''/'') (rev p))"

definition all_verts_of :: "real triangle list \<Rightarrow> real point list" where
  "all_verts_of triangles = concat (map tri_verts triangles)"

record bbox =
  min_x :: real
  max_x :: real
  min_y :: real
  max_y :: real
  min_z :: real
  max_z :: real

definition bounding_box :: "real point list \<Rightarrow> bbox" where
  "bounding_box all_verts =
     (let xs = map px all_verts;
          ys = map py all_verts;
          zs = map pz all_verts
      in \<lparr> min_x = py_min xs, max_x = py_max xs,
           min_y = py_min ys, max_y = py_max ys,
           min_z = py_min zs, max_z = py_max zs \<rparr>)"

definition header_lines :: "pystr \<Rightarrow> nat \<Rightarrow> string \<Rightarrow> nat \<Rightarrow> bbox \<Rightarrow> line list" where
  "header_lines filepath filesize fmt n b =
     (let w = max_x b - min_x b;
          h = max_y b - min_y b;
          d = max_z b - min_z b
      in [[Str ''File: '', Val (basename filepath)],
          [Str ''Format: '', Str fmt],
          [Str ''Size: '', Dec '','' (int filesize), Str '' bytes''],
          [Str ''Triangles: '', Dec '','' (int n)],
          [],
          [Str ''Bounding box:''],
          [Str ''  X: '', Flt ''.2f'' (min_x b), Str '' to '', Flt ''.2f'' (max_x b),
           Str ''  (width:  '', Flt ''.2f'' w, Str '' mm)''],
          [Str ''  Y: '', Flt ''.2f'' (min_y b), Str '' to '', Flt ''.2f'' (max_y b),
           Str ''  (height: '', Flt ''.2f'' h, Str '' mm)''],
          [Str ''  Z: '', Flt ''.2f'' (min_z b), Str '' to '', Flt ''.2f'' (max_z b),
           Str ''  (depth:  '', Flt ''.2f'' d, Str '' mm)''],
          [Str ''  Center: ('', Flt ''.2f'' ((min_x b + max_x b) / 2), Str '', '',
           Flt ''.2f'' ((min_y b + max_y b) / 2), Str '', '',
           Flt ''.2f'' ((min_z b + max_z b) / 2), Str '')''],
          []])"

definition normal_line :: "string \<Rightarrow> nat \<Rightarrow> nat \<Rightarrow> line" where
  "normal_line title k n =
     [Str title, Dec ''6d'' (int k), Str ''  ('', Flt ''.0f'' (100 * real k / real n), Str ''%)'']"

definition normal_lines :: "nat \<times> nat \<times> nat \<times> nat \<Rightarrow> nat \<Rightarrow> line list" where
  "normal_lines counts n =
     (case counts of (top', bottom, vertical, angled) \<Rightarrow>
        [[Str ''Face normals:''],
         normal_line ''  Top-facing (flat):    '' top' n,
         normal_line ''  Bottom-facing (flat): '' bottom n,
         normal_line ''  Vertical (walls):     '' vertical n,
         normal_line ''  Angled (curves/bevel):'' angled n,
         []])"

definition z_histogram :: "real point list \<Rightarrow> (real \<times> nat) list" where
  "z_histogram all_verts = foldl (\<lambda>z_hist v. dict_incr z_hist (py_round1 (pz v))) [] all_verts"

definition histogram_lines :: "real point list \<Rightarrow> line list" where
  "histogram_lines all_verts =
     (let z_hist = z_histogram all_verts;
          max_count = py_max (map snd z_hist);
          bar_scale = (if max_count > 0 then 40 / real max_count else 1)
      in [[Str ''Z-level distribution ('', Dec [] (int (length z_hist)),
           Str '' distinct levels):'']]
         @ map (\<lambda>z. let bar = replicate (nat (py_int (real (dict_get z_hist z 0) * bar_scale)))
                                        CHR ''#''
                     in [Str ''  z='', Flt ''6.1f'' z, Str '': '',
                         Dec ''6d'' (int (dict_get z_hist z 0)), Str '' '', Str bar])
               (sort (map fst z_hist))
         @ [[]])"

text \<open>\<^verbatim>\<open>sorted(set([...]))\<close> of the seven heights.\<close>

definition z_levels :: "bbox \<Rightarrow> real list" where
  "z_levels b =
     (let z_range = max_z b - min_z b
      in sort (remdups [min_z b,
                        min_z b + z_range * 0.1,
                        min_z b + z_range * 0.25,
                        min_z b + z_range * 0.5,
                        min_z b + z_range * 0.75,
                        min_z b + z_range * 0.9,
                        max_z b]))"

definition slice_line :: "real point list \<Rightarrow> real \<Rightarrow> line" where
  "slice_line all_verts z_level =
     (case analyze_slice all_verts z_level slice_tolerance of
        Some info \<Rightarrow>
          [Str ''  z='', Flt ''.1f'' z_level, Str '': '', Str (s_shape info), Str '' ('',
           Flt ''.1f'' (s_width info), Str '' x '', Flt ''.1f'' (s_height info),
           Str '' mm, r~'', Flt ''.1f'' (s_avg_radius info), Str '' mm, variation='',
           Flt ''.3f'' (s_variation info), Str '', pts='', Dec [] (int (s_verts info)),
           Str '')'']
      | None \<Rightarrow> [Str ''  z='', Flt ''.1f'' z_level, Str '': insufficient data''])"

definition slice_lines :: "real point list \<Rightarrow> bbox \<Rightarrow> line list" where
  "slice_lines all_verts b =
     [[Str ''Cross-section analysis:'']] @ map (slice_line all_verts) (z_levels b) @ [[]]"

text \<open>
  The ASCII cross-sections.  \<open>ascii_block\<close> is one iteration of the loop over
  \<open>ascii_z_levels\<close>: \<^verbatim>\<open>continue\<close> leaves the iteration without printing.
\<close>

definition ascii_z_levels :: "bbox \<Rightarrow> real list" where
  "ascii_z_levels b =
     (let z_range = max_z b - min_z b
      in [min_z b + 0.2,
          min_z b + z_range * 0.25,
          min_z b + z_range * 0.5,
          min_z b + z_range * 0.75,
          max_z b - 0.2])"

definition ascii_slab :: "real point list \<Rightarrow> bbox \<Rightarrow> real \<Rightarrow> (real \<times> real) list" where
  "ascii_slab all_verts b z_target =
     (let z_range = max_z b - min_z b;
          tol = max 0.25 (z_range * 0.03)
      in [(px v, py v). v \<leftarrow> all_verts, \<bar>pz v - z_target\<bar> < tol])"

definition ascii_label :: "real \<Rightarrow> line" where
  "ascii_label z_target = [Str (CHR 0x0A # ''  --- z=''), Flt ''.1f'' z_target, Str ''mm ---'']"

definition ascii_block :: "real point list \<Rightarrow> bbox \<Rightarrow> real \<Rightarrow> exn + line list" where
  "ascii_block all_verts b z_target =
     (let w = max_x b - min_x b;
          h = max_y b - min_y b;
          verts_2d = ascii_slab all_verts b z_target
      in if length verts_2d < 10 then Inr []
         else bind_exn (ascii_cross_section verts_2d w h 2.0 (ascii_label z_target))
                (\<lambda>lines. Inr (map (\<lambda>line. Str ''  '' # line) lines)))"

text \<open>A loop whose iterations print, stopped by the first exception.\<close>

fun for_each :: "('a \<Rightarrow> exn + line list) \<Rightarrow> 'a list \<Rightarrow> exn + line list" where
  "for_each f [] = Inr []"
| "for_each f (x # xs) =
     bind_exn (f x) (\<lambda>ls. bind_exn (for_each f xs) (\<lambda>rest. Inr (ls @ rest)))"

definition ascii_lines_section :: "real point list \<Rightarrow> bbox \<Rightarrow> exn + line list" where
  "ascii_lines_section all_verts b =
     bind_exn (for_each (ascii_block all_verts b) (ascii_z_levels b)) (\<lambda>blocks.
       Inr ([[Str ''ASCII cross-sections (# = geometry present):'']] @ blocks @ [[]]))"

definition surface_rows :: "(real \<times> nat) list \<Rightarrow> line list" where
  "surface_rows faces =
     concat (map (\<lambda>z. let count = dict_get faces z 0
                      in if count > 5
                         then [[Str ''  z='', Flt ''5.1f'' z, Str '': '', Dec ''4d'' (int count),
                                Str '' faces'']]
                         else [])
                 (sort (map fst faces)))"

definition surface_lines :: "real triangle list \<Rightarrow> bbox \<Rightarrow> line list" where
  "surface_lines triangles b =
     (case detect_surfaces triangles (min_y b) of (top_faces, bot_faces) \<Rightarrow>
        [[Str ''Floor surfaces (top-facing flat faces by Z level):'']]
        @ surface_rows top_faces
        @ [[], [Str ''Ceiling surfaces (bottom-facing flat faces by Z level):'']]
        @ surface_rows bot_faces
        @ [[]])"

definition pocket_z_levels :: "bbox \<Rightarrow> real list" where
  "pocket_z_levels b =
     (let z_range = max_z b - min_z b
      in map (\<lambda>f. min_z b + z_range * f) [0.1, 0.2, 0.3, 0.4, 0.5, 0.6, 0.7, 0.8, 0.9])"

text \<open>
  One iteration of the loop over \<open>pocket_z_levels\<close>; the call leaves \<open>tol\<close> and
  \<open>grid_size\<close> at their defaults \<open>0.3\<close> and \<open>2.0\<close>.
\<close>

definition pocket_line :: "real point list \<Rightarrow> bbox \<Rightarrow> real \<Rightarrow> exn + line list" where
  "pocket_line all_verts b z_target =
     bind_exn (detect_pockets all_verts (min_x b) (min_y b) z_target 0.3 2.0) (\<lambda>r.
       case r of
         None \<Rightarrow> Inr []
       | Some pocket \<Rightarrow>
           Inr [[Str ''  z='', Flt ''.1f'' z_target, Str '': '', Dec [] (int (p_count pocket)),
                 Str '' void cells, region: '', Flt ''.0f'' (p_width pocket), Str '' x '',
                 Flt ''.0f'' (p_height pocket), Str '' mm at X=['',
                 Flt ''.0f'' (fst (p_x_range pocket)), Str '','',
                 Flt ''.0f'' (snd (p_x_range pocket)), Str ''] Y=['',
                 Flt ''.0f'' (fst (p_y_range pocket)), Str '','',
                 Flt ''.0f'' (snd (p_y_range pocket)), Str '']'']])"

text \<open>
  \<open>found_pockets\<close> is set exactly when an iteration has printed its line.
\<close>

definition pocket_lines :: "real point list \<Rightarrow> bbox \<Rightarrow> exn + line list" where
  "pocket_lines all_verts b =
     bind_exn (for_each (pocket_line all_verts b) (pocket_z_levels b)) (\<lambda>found.
       Inr ([[Str ''Pocket/void detection:'']] @ found
            @ (if found = [] then [[Str ''  No internal voids detected (solid object)'']] else [])
            @ [[]]))"

definition recommendation_lines :: "nat \<times> nat \<times> nat \<times> nat \<Rightarrow> nat \<Rightarrow> line list" where
  "recommendation_lines counts n =
     (case counts of (top', bottom, vertical, angled) \<Rightarrow>
        let flat_vertical_pct = real (top' + bottom + vertical) / real n * 100;
            curve_pct = real angled / real n * 100
        in [[Str (replicate 60 CHR ''='')], [Str ''Recommended reconstruction:'']]
           @ recommendation n flat_vertical_pct curve_pct
           @ [[Str (replicate 60 CHR ''='')]])"

subsection \<open>\<^verbatim>\<open>analyze\<close> and the main program\<close>

text \<open>What \<^verbatim>\<open>analyze\<close> prints after the test for an empty mesh.\<close>

definition report :: "pystr \<Rightarrow> nat \<Rightarrow> string \<Rightarrow> real triangle list \<Rightarrow> exn + line list" where
  "report filepath filesize fmt triangles =
     (let all_verts = all_verts_of triangles;
          b = bounding_box all_verts;
          n = length triangles;
          counts = count_normals triangles
      in bind_exn (ascii_lines_section all_verts b) (\<lambda>ascii.
         bind_exn (pocket_lines all_verts b) (\<lambda>pockets.
           Inr (header_lines filepath filesize fmt n b
                @ normal_lines counts n
                @ histogram_lines all_verts
                @ slice_lines all_verts b
                @ ascii
                @ surface_lines triangles b
                @ pockets
                @ recommendation_lines counts n))))"

text \<open>The choice of the reader; the header that both readers return is not used.\<close>

definition load :: "runtime \<Rightarrow> byte list \<Rightarrow> exn + (real triangle list \<times> string)" where
  "load rt file =
     (if is_ascii_stl file
      then bind_exn (read_ascii_stl rt file) (\<lambda>(header, triangles). Inr (triangles, ''ASCII''))
      else bind_exn (read_binary_stl (unpack_f rt) file)
             (\<lambda>(header, triangles). Inr (triangles, ''Binary'')))"

text \<open>
  \<open>analyze\<close> returns the lines printed, or the exception that ends the run.  The file
  system gives the bytes \<open>file\<close> stored under \<open>filepath\<close>; \<^verbatim>\<open>os.path.getsize\<close> is their
  number.  Both readers run before the first \<^verbatim>\<open>print\<close>, so that a run ended by an
  exception of a reader has printed nothing.
\<close>

definition analyze :: "runtime \<Rightarrow> pystr \<Rightarrow> byte list \<Rightarrow> exn + line list" where
  "analyze rt filepath file =
     (let filesize = length file
      in bind_exn (load rt file) (\<lambda>(triangles, fmt).
           if triangles = [] then Inr [[Str ''Error: No triangles found in file.'']]
           else report filepath filesize fmt triangles))"

text \<open>
  How the process ends: \<open>Exit n\<close> after \<^verbatim>\<open>sys.exit(n)\<close> (and \<open>Exit 0\<close> when the script
  reaches its end), \<open>Uncaught e\<close> when an exception reaches the top level, where the
  interpreter prints a traceback and the exit code is 1.
\<close>

datatype status = Exit nat | Uncaught exn

fun exit_code :: "status \<Rightarrow> nat" where
  "exit_code (Exit n) = n"
| "exit_code (Uncaught e) = 1"

text \<open>
  The block under \<^verbatim>\<open>if __name__ == "__main__"\<close>.  \<^verbatim>\<open>sys.argv\<close> is \<open>prog # args\<close>; the file
  system \<open>fs\<close> maps the paths that exist to the bytes stored there (directories and
  unreadable files are outside the model).
\<close>

definition main ::
  "runtime \<Rightarrow> (pystr \<Rightarrow> byte list option) \<Rightarrow> pystr \<Rightarrow> pystr list \<Rightarrow> line list \<times> status" where
  "main rt fs prog args =
     (case args of
        [] \<Rightarrow> ([[Str ''Usage: '', Val prog, Str '' <file.stl>'']], Exit 1)
      | path # _ \<Rightarrow>
          (case fs path of
             None \<Rightarrow> ([[Str ''Error: File not found: '', Val path]], Exit 1)
           | Some file \<Rightarrow>
               (case analyze rt path file of
                  Inl e \<Rightarrow> ([], Uncaught e)
                | Inr out \<Rightarrow> (out, Exit 0))))"

section \<open>The specification's wording\<close>

text \<open>
  The definitions of this section follow the sentences of the specification, not the
  script; the theorems below compare them with the functions of the script.
\<close>

subsection \<open>Format detection (4.1)\<close>

text \<open>
  ``Read the first 80 bytes; if, after stripping leading whitespace, they begin with the
  literal marker \<^verbatim>\<open>solid\<close> and contain no null byte, treat as text format.''  The null byte
  is looked for in the 80 bytes as read.
\<close>

definition spec_is_text :: "byte list \<Rightarrow> bool" where
  "spec_is_text file =
     (let first80 = take 80 file
      in startswith (dropWhile bytes_space first80) solid \<and> 0 \<notin> set first80)"

subsection \<open>Normal classification (4.2)\<close>

datatype normal_class = Top | Bottom | Vertical | Angled

fun applies :: "normal_class \<Rightarrow> real \<Rightarrow> bool" where
  "applies Top z = (z > 0.9)"
| "applies Bottom z = (z < - 0.9)"
| "applies Vertical z = (\<bar>z\<bar> < 0.1)"
| "applies Angled z = (\<not> z > 0.9 \<and> \<not> z < - 0.9 \<and> \<not> \<bar>z\<bar> < 0.1)"

text \<open>The number of triangles of a mesh to which a class applies.\<close>

definition class_count :: "normal_class \<Rightarrow> real triangle list \<Rightarrow> nat" where
  "class_count c triangles = length (filter (\<lambda>t. applies c (pz (tri_normal t))) triangles)"

subsection \<open>Cross-section shape (4.3)\<close>

text \<open>The points of the slab: the \<open>(x, y)\<close> of the vertices with \<open>|z - targetZ| < tolerance\<close>.\<close>

definition slab :: "real point list \<Rightarrow> real \<Rightarrow> real \<Rightarrow> (real \<times> real) list" where
  "slab vs targetZ tolerance = map (\<lambda>v. (px v, py v)) (filter (\<lambda>v. \<bar>pz v - targetZ\<bar> < tolerance) vs)"

text \<open>The midpoint of the bounding box of a set of points of the plane.\<close>

definition bbox_midpoint :: "(real \<times> real) list \<Rightarrow> real \<times> real" where
  "bbox_midpoint pts =
     ((Min (fst ` set pts) + Max (fst ` set pts)) / 2,
      (Min (snd ` set pts) + Max (snd ` set pts)) / 2)"

text \<open>The Euclidean distance of the plane, and that of every point to a centre.\<close>

definition euclidean :: "real \<times> real \<Rightarrow> real \<times> real \<Rightarrow> real" where
  "euclidean p q = sqrt ((fst p - fst q)\<^sup>2 + (snd p - snd q)\<^sup>2)"

definition distances :: "real \<times> real \<Rightarrow> (real \<times> real) list \<Rightarrow> real list" where
  "distances c pts = map (\<lambda>p. euclidean p c) pts"

definition mean :: "real list \<Rightarrow> real" where
  "mean xs = sum_list xs / real (length xs)"

text \<open>The population standard deviation: the root of the mean squared deviation.\<close>

definition population_sd :: "real list \<Rightarrow> real" where
  "population_sd xs = sqrt (mean (map (\<lambda>x. (x - mean xs)\<^sup>2) xs))"

definition variationCoefficient :: "real list \<Rightarrow> real" where
  "variationCoefficient ds = (if mean ds = 0 then 0 else population_sd ds / mean ds)"

datatype shapeLabel = Circular | Oval | Irregular

definition spec_label :: "real \<Rightarrow> shapeLabel" where
  "spec_label v = (if v < 0.1 then Circular else if v < 0.25 then Oval else Irregular)"

text \<open>The text under which the script reports each label.\<close>

fun label_text :: "shapeLabel \<Rightarrow> string" where
  "label_text Circular = ''circular''"
| "label_text Oval = ''roughly circular/oval''"
| "label_text Irregular = ''irregular''"

subsection \<open>Pocket detection (4.6)\<close>

text \<open>The hit count of a cell, an unoccupied cell counting as 0.\<close>

definition hit_count :: "(cell \<times> nat) list \<Rightarrow> cell \<Rightarrow> nat" where
  "hit_count grid c = (case map_of grid c of None \<Rightarrow> 0 | Some n \<Rightarrow> n)"

text \<open>The 8 immediate neighbours of a cell: the cell itself is not among them.\<close>

definition neighbours8 :: "cell \<Rightarrow> cell list" where
  "neighbours8 c =
     (case c of (gx, gy) \<Rightarrow>
        [(gx - 1, gy - 1), (gx - 1, gy), (gx - 1, gy + 1),
         (gx, gy - 1), (gx, gy + 1),
         (gx + 1, gy - 1), (gx + 1, gy), (gx + 1, gy + 1)])"

definition spec_candidate :: "(cell \<times> nat) list \<Rightarrow> cell \<Rightarrow> bool" where
  "spec_candidate grid c =
     (hit_count grid c < 3 \<and>
      4 \<le> length (filter (\<lambda>d. 3 \<le> hit_count grid d) (neighbours8 c)))"

text \<open>
  The cells of the rectangular range spanning all occupied cells (inclusive), column by
  column.
\<close>

definition spanned_cells :: "(cell \<times> nat) list \<Rightarrow> cell list" where
  "spanned_cells grid =
     (let occupied = map fst grid
      in [(gx, gy). gx \<leftarrow> [Min (fst ` set occupied) .. Max (fst ` set occupied)],
                    gy \<leftarrow> [Min (snd ` set occupied) .. Max (snd ` set occupied)]])"

text \<open>The centre of a cell, as the script reports a candidate.\<close>

definition cell_centre :: "real \<Rightarrow> cell \<Rightarrow> real \<times> real" where
  "cell_centre grid_size c =
     (real_of_int (fst c) * grid_size + grid_size / 2,
      real_of_int (snd c) * grid_size + grid_size / 2)"

subsection \<open>Recommendation (4.7)\<close>

text \<open>
  The three recommendations; the polyhedron conversion carries the suggested decimation
  ratio when there is one.
\<close>

datatype strategy = ManualParametric | Polyhedron "real option" | SlicedCrossSection

definition spec_recommendation :: "nat \<Rightarrow> real \<Rightarrow> real \<Rightarrow> strategy" where
  "spec_recommendation triangleCount flatVerticalPercentage curvedPercentage =
     (if triangleCount < 500 \<and> flatVerticalPercentage > 80 then ManualParametric
      else if triangleCount > 1000 \<or> curvedPercentage > 30
      then Polyhedron (if triangleCount > 50000
                       then Some (max 0.1 (20000 / real triangleCount)) else None)
      else SlicedCrossSection)"

text \<open>
  The strategy that a printed block announces, read from the text that opens its first
  line, and the ratio from the line that suggests a reduction.
\<close>

fun announced :: "line list \<Rightarrow> strategy option" where
  "announced ((Str s # _) # ls) =
     (if s = ''  >>Manual parametric (simple geometry: '' then Some ManualParametric
      else if s = ''  >>Sliced cross-section (medium: '' then Some SlicedCrossSection
      else if s = ''  >>Polyhedron (complex: ''
      then Some (Polyhedron (case ls of
                               [_, _, [_, Flt _ ratio, _, _, _, _, _]] \<Rightarrow> Some ratio
                             | _ \<Rightarrow> None))
      else None)"
| "announced _ = None"

section \<open>The binary reader\<close>

lemma read_triangles_short:
  "length rest < 50 \<Longrightarrow> read_triangles uf n rest acc = acc"
  by (cases n) simp_all

lemma read_triangles_records:
  "\<forall>r \<in> set recs. length r = 50 \<Longrightarrow> length tail < 50 \<Longrightarrow> length recs < n \<Longrightarrow>
   read_triangles uf n (concat recs @ tail) acc = acc @ map (unpack_triangle uf) recs"
proof (induction recs arbitrary: n acc)
  case Nil
  then show ?case by (simp add: read_triangles_short)
next
  case (Cons r recs)
  from Cons.prems obtain m where n: "n = Suc m" and m: "length recs < m"
    by (cases n) auto
  from Cons.prems have r: "length r = 50" and rs: "\<forall>r \<in> set recs. length r = 50"
    by auto
  have "read_triangles uf n (concat (r # recs) @ tail) acc =
        read_triangles uf m (concat recs @ tail) (acc @ [unpack_triangle uf r])"
    using r by (simp add: n)
  also have "\<dots> = (acc @ [unpack_triangle uf r]) @ map (unpack_triangle uf) recs"
    by (rule Cons.IH [OF rs Cons.prems(2) m])
  finally show ?case by simp
qed

lemma short_file_struct_error:
  "length file < 84 \<Longrightarrow> read_binary_stl uf file = Inl StructError"
  by (auto simp add: read_binary_stl_def unpack_I_def Let_def)

text \<open>
  Claim C8.  A binary file is an 80-byte header, a 4-byte count, some complete 50-byte
  records and a tail.  When the count announces more records than are complete and
  fewer than 50 bytes are left for the next one, \<open>read_binary_stl\<close> raises nothing and
  returns the triangles of the complete records, in the order of the file.
\<close>

theorem truncated_record_partial_read:
  assumes "length header = 80" and "length count = 4"
    and "\<forall>r \<in> set recs. length r = 50"
    and "length recs < unat (le_u32 count)"
    and "length tail < 50"
  shows "read_binary_stl uf (header @ count @ concat recs @ tail) =
         Inr (header, map (unpack_triangle uf) recs)"
  using assms by (simp add: read_binary_stl_def unpack_I_def read_triangles_records)

text \<open>
  A file that announces two triangles and holds one record followed by 49 bytes: one
  triangle is returned.
\<close>

theorem truncated_record_partial_read_witness:
  "read_binary_stl id (replicate 80 0 @ [2, 0, 0, 0] @ concat [replicate 50 1] @ replicate 49 7) =
     Inr (replicate 80 0, [unpack_triangle id (replicate 50 1)])"
  using truncated_record_partial_read
    [of "replicate 80 0" "[2, 0, 0, 0]" "[replicate 50 1]" "replicate 49 7" id]
  by (simp add: le_u32_def)

text \<open>
  Claim C9.  A file of fewer than 84 bytes that is classified as binary makes
  \<open>read_binary_stl\<close> raise \<^verbatim>\<open>struct.error\<close> at the unpacking of the count; nothing catches
  it, so \<open>analyze\<close> raises it and the program ends with the uncaught exception, no line
  printed.  The partial read of claim C8 needs the header and the count to be complete.
\<close>

theorem short_binary_file_raises:
  assumes "length file < 84" and "\<not> is_ascii_stl file"
  shows "read_binary_stl (unpack_f rt) file = Inl StructError \<and>
         analyze rt path file = Inl StructError \<and>
         (fs path = Some file \<longrightarrow> main rt fs prog [path] = ([], Uncaught StructError))"
  using assms
  by (simp add: short_file_struct_error analyze_def load_def bind_exn_def main_def)

text \<open>A file of 83 null bytes.\<close>

theorem short_binary_file_raises_witness:
  "length (replicate 83 (0::byte)) < 84 \<and> \<not> is_ascii_stl (replicate 83 0) \<and>
   read_binary_stl (\<lambda>w. real (unat w)) (replicate 83 0) = Inl StructError \<and>
   main \<lparr> unpack_f = (\<lambda>w. real (unat w)), text_lines = (\<lambda>b. Inr []), to_float = (\<lambda>s. None) \<rparr>
        (\<lambda>p. if p = lit ''short.stl'' then Some (replicate 83 0) else None)
        (lit ''analyze-stl.py'') [lit ''short.stl''] = ([], Uncaught StructError)"
proof -
  have short: "length (replicate 83 (0::byte)) < 84"
    by simp
  have binary: "\<not> is_ascii_stl (replicate 83 0)"
    by (simp add: is_ascii_stl_def lstrip_bytes_def bytes_space_def startswith_def solid_def)
  show ?thesis
    using short binary
      short_binary_file_raises [OF short binary,
        of "\<lparr> unpack_f = (\<lambda>w. real (unat w)), text_lines = (\<lambda>b. Inr []),
              to_float = (\<lambda>s. None) \<rparr>"
           "lit ''short.stl''"
           "\<lambda>p. if p = lit ''short.stl'' then Some (replicate 83 0) else None"
           "lit ''analyze-stl.py''"]
    by simp
qed

section \<open>Format detection\<close>

lemma null_survives_lstrip:
  "(0 \<in> set (dropWhile bytes_space xs)) = (0 \<in> set xs)"
  by (induction xs) (auto simp: bytes_space_def)

lemma is_ascii_stl_spec: "is_ascii_stl file = spec_is_text file"
  by (simp add: is_ascii_stl_def spec_is_text_def lstrip_bytes_def Let_def
      null_survives_lstrip)

lemma solid_null_binary: "\<not> is_ascii_stl (solid @ 0 # rest)"
  by (simp add: is_ascii_stl_def lstrip_bytes_def Let_def solid_def bytes_space_def)

text \<open>
  Claim C3.  \<open>is_ascii_stl\<close> reads the first 80 bytes and answers text exactly when, after
  the leading whitespace is stripped, they begin with \<^verbatim>\<open>solid\<close> and hold no null byte (the
  script looks for the null byte after stripping, the specification in the 80 bytes: the
  two agree, a null byte being no whitespace).  A file that starts with \<^verbatim>\<open>solid\<close> and a
  null byte is not text, and \<open>load\<close> hands it to \<open>read_binary_stl\<close>.
\<close>

theorem format_detection:
  "is_ascii_stl file = spec_is_text file \<and>
   \<not> is_ascii_stl (solid @ 0 # rest) \<and>
   load rt (solid @ 0 # rest) =
     (case read_binary_stl (unpack_f rt) (solid @ 0 # rest) of
        Inl e \<Rightarrow> Inl e
      | Inr (header, triangles) \<Rightarrow> Inr (triangles, ''Binary''))"
  apply (intro conjI)
  subgoal by (rule is_ascii_stl_spec)
  subgoal by (rule solid_null_binary)
  subgoal by (simp add: solid_null_binary load_def bind_exn_def)
  done

section \<open>Face normals and recommendation\<close>

lemma count_normals_acc:
  "foldl count_normal (a, b, c, d) ts =
     (a + class_count Top ts, b + class_count Bottom ts,
      c + class_count Vertical ts, d + class_count Angled ts)"
  by (induction ts arbitrary: a b c d) (auto simp: count_normal_def class_count_def Let_def)

lemma class_counts_sum:
  "class_count Top ts + class_count Bottom ts + class_count Vertical ts + class_count Angled ts
     = length ts"
  by (induction ts) (auto simp: class_count_def)

lemma exactly_one_class: "\<exists>!c. applies c z"
proof -
  consider "z > 0.9" | "z < - 0.9" | "\<bar>z\<bar> < 0.1" | "\<not> z > 0.9 \<and> \<not> z < - 0.9 \<and> \<not> \<bar>z\<bar> < 0.1"
    by blast
  then show ?thesis
  proof cases
    case 1
    have "applies Top z" using 1 by simp
    moreover have "c = Top" if "applies c z" for c
      using that 1 by (cases c) auto
    ultimately show ?thesis by blast
  next
    case 2
    have "applies Bottom z" using 2 by simp
    moreover have "c = Bottom" if "applies c z" for c
      using that 2 by (cases c) auto
    ultimately show ?thesis by blast
  next
    case 3
    have "applies Vertical z" using 3 by simp
    moreover have "c = Vertical" if "applies c z" for c
      using that 3 by (cases c) auto
    ultimately show ?thesis by blast
  next
    case 4
    have "applies Angled z" using 4 by simp
    moreover have "c = Angled" if "applies c z" for c
      using that 4 by (cases c) auto
    ultimately show ?thesis by blast
  qed
qed

text \<open>
  Claim C5.  Exactly one of the four classes applies to the \<open>z\<close> of a triangle's normal;
  the four counters of the script are the numbers of triangles of each class, which
  depend on that \<open>z\<close> only, and they add up to the number of triangles.
\<close>

theorem normal_classes_partition:
  "(\<exists>!c. applies c (pz (tri_normal t))) \<and>
   count_normals triangles =
     (class_count Top triangles, class_count Bottom triangles,
      class_count Vertical triangles, class_count Angled triangles) \<and>
   class_count Top triangles + class_count Bottom triangles +
   class_count Vertical triangles + class_count Angled triangles = length triangles"
  by (simp add: exactly_one_class count_normals_def count_normals_acc class_counts_sum)

lemma announced_recommendation:
  "announced (recommendation n fv cv) = Some (spec_recommendation n fv cv)"
  by (simp add: recommendation_def spec_recommendation_def manual_block_def
      polyhedron_block_def sliced_block_def reduce_line_def Let_def)

lemma recommendation_branches:
  "recommendation n fv cv =
     (case spec_recommendation n fv cv of
        ManualParametric \<Rightarrow> manual_block n fv
      | Polyhedron r \<Rightarrow> polyhedron_block n cv
      | SlicedCrossSection \<Rightarrow> sliced_block n cv)"
  by (simp add: recommendation_def spec_recommendation_def)

text \<open>
  Claim C4.  The block that the script prints announces the strategy that the
  specification's precedence order gives for (triangle count, flat/vertical percentage,
  curved percentage), with the ratio \<open>max 0.1 (20000 / count)\<close> above 50000 triangles;
  \<open>analyze\<close> calls it on the count and the two percentages of the mesh; and the three
  examples of the specification come out as sliced cross-section, polyhedron and manual
  parametric.
\<close>

theorem recommendation_precedence:
  "announced (recommendation n fv cv) = Some (spec_recommendation n fv cv) \<and>
   recommendation n fv cv =
     (case spec_recommendation n fv cv of
        ManualParametric \<Rightarrow> manual_block n fv
      | Polyhedron r \<Rightarrow> polyhedron_block n cv
      | SlicedCrossSection \<Rightarrow> sliced_block n cv) \<and>
   recommendation_lines (t, b, v, a) n =
     [[Str (replicate 60 CHR ''='')], [Str ''Recommended reconstruction:'']]
     @ recommendation n (real (t + b + v) / real n * 100) (real a / real n * 100)
     @ [[Str (replicate 60 CHR ''='')]] \<and>
   announced (recommendation 300 60 20) = Some SlicedCrossSection \<and>
   announced (recommendation 1200 10 5) = Some (Polyhedron None) \<and>
   announced (recommendation 400 85 2) = Some ManualParametric"
  apply (intro conjI)
  subgoal by (rule announced_recommendation)
  subgoal by (rule recommendation_branches)
  subgoal by (simp add: recommendation_lines_def Let_def)
  subgoal by (simp add: announced_recommendation spec_recommendation_def)
  subgoal by (simp add: announced_recommendation spec_recommendation_def)
  subgoal by (simp add: announced_recommendation spec_recommendation_def)
  done

section \<open>Cross-sections\<close>

lemma py_min_Min: "xs \<noteq> [] \<Longrightarrow> py_min xs = Min (set xs)"
  by (cases xs) (simp_all add: Min.set_eq_fold [symmetric] del: set_simps)

lemma py_max_Max: "xs \<noteq> [] \<Longrightarrow> py_max xs = Max (set xs)"
  by (cases xs) (simp_all add: Max.set_eq_fold [symmetric] del: set_simps)

lemma concat_map_if:
  "concat (map (\<lambda>x. if P x then [f x] else []) xs) = map f (filter P xs)"
  by (induction xs) simp_all

lemma slab_comprehension:
  "[(px v, py v). v \<leftarrow> all_verts, \<bar>pz v - target_z\<bar> < tolerance] = slab all_verts target_z tolerance"
  by (simp add: slab_def concat_map_if)

lemma analyze_slice_None:
  "analyze_slice all_verts target_z tolerance = None \<longleftrightarrow>
   length (slab all_verts target_z tolerance) < 10"
  by (simp add: analyze_slice_def slab_comprehension Let_def)

lemma slab_nonempty: "10 \<le> length (slab vs z tol) \<Longrightarrow> slab vs z tol \<noteq> []"
  by auto

lemma analyze_slice_Some:
  assumes "analyze_slice all_verts target_z tolerance = Some info"
  shows "s_verts info = length (slab all_verts target_z tolerance) \<and>
         s_x_range info = (Min (fst ` set (slab all_verts target_z tolerance)),
                           Max (fst ` set (slab all_verts target_z tolerance))) \<and>
         s_y_range info = (Min (snd ` set (slab all_verts target_z tolerance)),
                           Max (snd ` set (slab all_verts target_z tolerance)))"
proof -
  have len: "10 \<le> length (slab all_verts target_z tolerance)"
    using assms analyze_slice_None [of all_verts target_z tolerance] by simp
  then have ne: "slab all_verts target_z tolerance \<noteq> []"
    by (rule slab_nonempty)
  show ?thesis
    using assms len ne
    by (auto simp add: analyze_slice_def slab_comprehension Let_def py_min_Min py_max_Max)
qed

lemma slice_line_insufficient:
  "slice_line all_verts z = [Str ''  z='', Flt ''.1f'' z, Str '': insufficient data''] \<longleftrightarrow>
   length (slab all_verts z 0.25) < 10"
  by (cases "analyze_slice all_verts z slice_tolerance")
     (use analyze_slice_None [of all_verts z "0.25"] in
       \<open>simp_all add: slice_line_def slice_tolerance_def\<close>)

text \<open>
  Claim C6.  \<open>analyze_slice\<close> returns no result exactly when fewer than 10 vertices have
  \<open>|z - target_z| < tolerance\<close>; a result counts exactly these vertices and spans exactly
  their \<open>x\<close> and \<open>y\<close>; 9 vertices give no result and 10 give one; and with the default
  tolerance 0.25 the report prints ``insufficient data'' in exactly that case.
\<close>

theorem slice_threshold:
  "(analyze_slice all_verts target_z tolerance = None \<longleftrightarrow>
      length (slab all_verts target_z tolerance) < 10) \<and>
   (\<forall>info. analyze_slice all_verts target_z tolerance = Some info \<longrightarrow>
      s_verts info = length (slab all_verts target_z tolerance) \<and>
      s_x_range info = (Min (fst ` set (slab all_verts target_z tolerance)),
                        Max (fst ` set (slab all_verts target_z tolerance))) \<and>
      s_y_range info = (Min (snd ` set (slab all_verts target_z tolerance)),
                        Max (snd ` set (slab all_verts target_z tolerance)))) \<and>
   (length (slab all_verts target_z tolerance) = 9 \<longrightarrow>
      analyze_slice all_verts target_z tolerance = None) \<and>
   (length (slab all_verts target_z tolerance) = 10 \<longrightarrow>
      analyze_slice all_verts target_z tolerance \<noteq> None) \<and>
   (slice_line all_verts target_z = [Str ''  z='', Flt ''.1f'' target_z, Str '': insufficient data'']
      \<longleftrightarrow> length (slab all_verts target_z 0.25) < 10)"
  apply (intro conjI allI impI)
  subgoal by (rule analyze_slice_None)
  subgoal for info using analyze_slice_Some [of all_verts target_z tolerance info] by simp
  subgoal for info using analyze_slice_Some [of all_verts target_z tolerance info] by simp
  subgoal for info using analyze_slice_Some [of all_verts target_z tolerance info] by simp
  subgoal by (simp add: analyze_slice_None)
  subgoal by (simp add: analyze_slice_None)
  subgoal by (rule slice_line_insufficient)
  done

lemma sum_list_nonneg_distances: "0 \<le> sum_list (distances c pts)"
  by (rule sum_list_nonneg) (auto simp: distances_def euclidean_def)

lemma mean_distances_nonneg: "0 \<le> mean (distances c pts)"
  by (simp add: mean_def sum_list_nonneg_distances)

lemma dists_distances:
  "map (\<lambda>(x, y). sqrt ((x - cx)\<^sup>2 + (y - cy)\<^sup>2)) pts = distances (cx, cy) pts"
  by (simp add: distances_def euclidean_def case_prod_beta)

lemma label_text_spec:
  "(if v < 0.1 then ''circular'' else if v < 0.25 then ''roughly circular/oval'' else ''irregular'')
   = label_text (spec_label v)"
  by (simp add: spec_label_def)

lemma variation_spec:
  assumes "0 \<le> mean ds"
  shows "(if mean ds > 0
          then sqrt (sum_list (map (\<lambda>dd. (dd - mean ds)\<^sup>2) ds) / real (length ds)) / mean ds
          else 0) = variationCoefficient ds"
  using assms by (auto simp: variationCoefficient_def population_sd_def mean_def)

lemma analyze_slice_spec:
  assumes "10 \<le> length (slab all_verts target_z tolerance)"
  shows "analyze_slice all_verts target_z tolerance =
    (let pts = slab all_verts target_z tolerance;
         c = bbox_midpoint pts;
         ds = distances c pts
     in Some \<lparr> s_verts = length pts,
               s_x_range = (py_min (map fst pts), py_max (map fst pts)),
               s_y_range = (py_min (map snd pts), py_max (map snd pts)),
               s_width = py_max (map fst pts) - py_min (map fst pts),
               s_height = py_max (map snd pts) - py_min (map snd pts),
               s_center = c,
               s_avg_radius = mean ds,
               s_variation = variationCoefficient ds,
               s_shape = label_text (spec_label (variationCoefficient ds)) \<rparr>)"
proof -
  let ?pts = "slab all_verts target_z tolerance"
  have ne: "?pts \<noteq> []" using assms by (rule slab_nonempty)
  have c: "((py_min (map fst ?pts) + py_max (map fst ?pts)) / 2,
            (py_min (map snd ?pts) + py_max (map snd ?pts)) / 2) = bbox_midpoint ?pts"
    using ne by (simp add: bbox_midpoint_def py_min_Min py_max_Max)
  have big: "\<not> length ?pts < 10" using assms by simp
  show ?thesis
    unfolding analyze_slice_def Let_def slab_comprehension dists_distances c
      mean_def [symmetric] label_text_spec
    by (simp only: big if_False variation_spec [OF mean_distances_nonneg])
qed

text \<open>
  Claim C7.  With at least 10 vertices in the slab, \<open>analyze_slice\<close> returns a result whose
  centre is the midpoint of the bounding box of the selected points, whose mean radius is
  the mean of their Euclidean distances to that centre, whose variation is the population
  standard deviation of the distances divided by the mean radius (0 for a mean radius 0),
  and whose shape is the label of that variation: circular below 0.1, oval below 0.25,
  irregular otherwise.
\<close>

theorem slice_shape:
  assumes "10 \<le> length (slab all_verts target_z tolerance)"
  shows "\<exists>info. analyze_slice all_verts target_z tolerance = Some info \<and>
           s_center info = bbox_midpoint (slab all_verts target_z tolerance) \<and>
           s_avg_radius info =
             mean (distances (s_center info) (slab all_verts target_z tolerance)) \<and>
           s_variation info =
             variationCoefficient (distances (s_center info) (slab all_verts target_z tolerance)) \<and>
           s_shape info = label_text (spec_label (s_variation info))"
  by (simp add: analyze_slice_spec [OF assms] Let_def del: label_text.simps)

section \<open>Pocket detection\<close>

lemma dense_hit_count: "dense grid c \<longleftrightarrow> 3 \<le> hit_count grid c"
  by (simp add: dense_def hit_count_def split: option.split)

lemma sparse_hit_count: "sparse grid c \<longleftrightarrow> hit_count grid c < 3"
  by (simp add: sparse_def hit_count_def split: option.split)

lemma neighbors_of_sparse:
  assumes "sparse grid (gx, gy)"
  shows "neighbors grid gx gy =
         length (filter (\<lambda>d. 3 \<le> hit_count grid d) (neighbours8 (gx, gy)))"
proof -
  have centre: "\<not> 3 \<le> hit_count grid (gx, gy)"
    using assms by (simp add: sparse_hit_count)
  show ?thesis
    by (simp add: neighbors_def neighbours8_def dense_hit_count centre)
qed

lemma candidate_test:
  "(sparse grid (gx, gy) \<and> 4 \<le> neighbors grid gx gy) = spec_candidate grid (gx, gy)"
proof (cases "sparse grid (gx, gy)")
  case True
  then show ?thesis
    by (simp add: neighbors_of_sparse spec_candidate_def sparse_hit_count [symmetric])
next
  case False
  then show ?thesis
    by (simp add: spec_candidate_def sparse_hit_count [symmetric])
qed

lemma nested_loops:
  "concat (map (\<lambda>x. concat (map (\<lambda>y. if P (x, y) then [f (x, y)] else []) ys)) xs) =
   map f (filter P [(x, y). x \<leftarrow> xs, y \<leftarrow> ys])"
proof (induction xs)
  case Nil
  show ?case by simp
next
  case (Cons x xs)
  have row: "concat (map (\<lambda>y. if P (x, y) then [f (x, y)] else []) ys) =
             map f (filter P (map (Pair x) ys))"
    by (induction ys) simp_all
  show ?case using Cons.IH by (simp add: row)
qed

lemma cell_test:
  "(if sparse grid (gx, gy)
    then (if 4 \<le> neighbors grid gx gy
          then [(real_of_int gx * grid_size + grid_size / 2,
                 real_of_int gy * grid_size + grid_size / 2)]
          else [])
    else []) =
   (if spec_candidate grid (gx, gy) then [cell_centre grid_size (gx, gy)] else [])"
  by (simp add: candidate_test [symmetric] cell_centre_def)

lemma empty_interior_spec:
  assumes "grid \<noteq> []"
  shows "empty_interior grid_size grid =
         map (cell_centre grid_size) (filter (spec_candidate grid) (spanned_cells grid))"
proof -
  have keys: "map fst grid \<noteq> []" using assms by simp
  have lo_x: "py_min (map (\<lambda>k. fst k) (map fst grid)) = Min (fst ` set (map fst grid))"
    and hi_x: "py_max (map (\<lambda>k. fst k) (map fst grid)) = Max (fst ` set (map fst grid))"
    and lo_y: "py_min (map (\<lambda>k. snd k) (map fst grid)) = Min (snd ` set (map fst grid))"
    and hi_y: "py_max (map (\<lambda>k. snd k) (map fst grid)) = Max (snd ` set (map fst grid))"
    using keys by (simp_all add: py_min_Min py_max_Max del: map_map)
  show ?thesis
    unfolding empty_interior_def spanned_cells_def Let_def cell_test lo_x hi_x lo_y hi_y
    by (rule nested_loops)
qed

lemma inj_cell_centre: "grid_size \<noteq> 0 \<Longrightarrow> inj (cell_centre grid_size)"
  by (rule injI) (auto simp: cell_centre_def prod_eq_iff)

text \<open>The count that \<open>detect_pockets\<close> reports is the number of these cells.\<close>

lemma detect_pockets_count:
  assumes "detect_pockets all_verts mx my z_target tol grid_size = Inr (Some pocket)"
  shows "p_count pocket =
         length (filter
           (spec_candidate (build_grid grid_size
              [(px v - mx, py v - my). v \<leftarrow> all_verts, \<bar>pz v - z_target\<bar> < tol]))
           (spanned_cells (build_grid grid_size
              [(px v - mx, py v - my). v \<leftarrow> all_verts, \<bar>pz v - z_target\<bar> < tol])))"
proof -
  define grid where
    "grid = build_grid grid_size [(px v - mx, py v - my). v \<leftarrow> all_verts, \<bar>pz v - z_target\<bar> < tol]"
  have occupied: "grid \<noteq> []" and count: "p_count pocket = length (empty_interior grid_size grid)"
    using assms
    by (auto simp: detect_pockets_def Let_def grid_def split: if_splits)
  show ?thesis
    unfolding grid_def [symmetric] count empty_interior_spec [OF occupied] by simp
qed

text \<open>
  Claim C2.  The candidates that \<open>detect_pockets\<close> collects are the cells of the range
  spanned by the occupied cells whose own hit count is below 3 and that have at least 4
  among their 8 neighbours with a hit count of at least 3.  (The script counts over the 9
  cells around and including the cell; the cell itself, being sparse, never counts.)
\<close>

theorem pocket_candidates:
  assumes "grid \<noteq> []"
  shows "empty_interior grid_size grid =
           map (cell_centre grid_size) (filter (spec_candidate grid) (spanned_cells grid)) \<and>
         (grid_size \<noteq> 0 \<longrightarrow>
            (\<forall>c \<in> set (spanned_cells grid).
               cell_centre grid_size c \<in> set (empty_interior grid_size grid)
                 \<longleftrightarrow> spec_candidate grid c))"
proof (intro conjI impI ballI)
  show eq: "empty_interior grid_size grid =
           map (cell_centre grid_size) (filter (spec_candidate grid) (spanned_cells grid))"
    using assms by (rule empty_interior_spec)
  fix c
  assume gs: "grid_size \<noteq> 0" and c: "c \<in> set (spanned_cells grid)"
  show "cell_centre grid_size c \<in> set (empty_interior grid_size grid) \<longleftrightarrow> spec_candidate grid c"
    using c by (simp add: eq inj_image_mem_iff [OF inj_cell_centre [OF gs]])
qed

section \<open>ASCII section and the run as a whole\<close>

lemma ascii_slab_filter:
  "length (ascii_slab all_verts b z_target) =
   length (filter (\<lambda>v. \<bar>pz v - z_target\<bar> < max 0.25 ((max_z b - min_z b) * 0.03)) all_verts)"
  by (simp add: ascii_slab_def Let_def concat_map_if)

lemma truthy_ascii_label: "truthy (ascii_label z)"
  by (simp add: truthy_def ascii_label_def)

lemma ascii_cross_section_label:
  assumes "verts_2d \<noteq> []" and "grid_res \<noteq> 0" and "truthy label"
  shows "\<exists>rows. ascii_cross_section verts_2d width height grid_res label = Inr (label # rows)"
  using assms by (simp add: ascii_cross_section_def Let_def)

lemma ascii_block_omitted:
  "length (ascii_slab all_verts b z_target) < 10 \<Longrightarrow> ascii_block all_verts b z_target = Inr []"
  by (simp add: ascii_block_def Let_def)

lemma ascii_block_rendered:
  assumes "10 \<le> length (ascii_slab all_verts b z_target)"
  shows "\<exists>rows. ascii_block all_verts b z_target = Inr ((Str ''  '' # ascii_label z_target) # rows)"
proof -
  have ne: "ascii_slab all_verts b z_target \<noteq> []" using assms by auto
  obtain rows where
    "ascii_cross_section (ascii_slab all_verts b z_target) (max_x b - min_x b)
       (max_y b - min_y b) 2.0 (ascii_label z_target) = Inr (ascii_label z_target # rows)"
    using ascii_cross_section_label [OF ne _ truthy_ascii_label, of "2.0"] by fastforce
  then show ?thesis
    using assms by (simp add: ascii_block_def Let_def bind_exn_def)
qed

lemma for_each_Inr:
  "\<forall>x \<in> set xs. \<exists>ls. f x = Inr ls \<Longrightarrow>
   for_each f xs = Inr (concat (map (\<lambda>x. projr (f x)) xs))"
  by (induction xs) (auto simp: bind_exn_def)

lemma ascii_block_total: "\<exists>ls. ascii_block all_verts b z_target = Inr ls"
proof (cases "length (ascii_slab all_verts b z_target) < 10")
  case True
  then show ?thesis by (simp add: ascii_block_omitted)
next
  case False
  then show ?thesis using ascii_block_rendered [of all_verts b z_target] by auto
qed

lemma ascii_lines_section_blocks:
  "ascii_lines_section all_verts b =
     Inr ([[Str ''ASCII cross-sections (# = geometry present):'']]
          @ concat (map (\<lambda>z. projr (ascii_block all_verts b z)) (ascii_z_levels b))
          @ [[]])"
  by (simp add: ascii_lines_section_def for_each_Inr ascii_block_total bind_exn_def)

text \<open>
  Claim C10.  For a target height with fewer than 10 vertices within the tolerance
  \<open>max 0.25 (0.03 * z_range)\<close>, the iteration of the ASCII section prints nothing and
  raises nothing; with 10 or more it prints a block that starts with the label of the
  height.  The section is its title, the blocks of the five heights and an empty line.
\<close>

theorem ascii_block_threshold:
  "(length (filter (\<lambda>v. \<bar>pz v - z_target\<bar> < max 0.25 ((max_z b - min_z b) * 0.03)) all_verts) < 10
      \<longrightarrow> ascii_block all_verts b z_target = Inr []) \<and>
   (10 \<le> length (filter (\<lambda>v. \<bar>pz v - z_target\<bar> < max 0.25 ((max_z b - min_z b) * 0.03)) all_verts)
      \<longrightarrow> (\<exists>rows. ascii_block all_verts b z_target =
                    Inr ((Str ''  '' # ascii_label z_target) # rows))) \<and>
   ascii_lines_section all_verts b =
     Inr ([[Str ''ASCII cross-sections (# = geometry present):'']]
          @ concat (map (\<lambda>z. projr (ascii_block all_verts b z)) (ascii_z_levels b))
          @ [[]])"
  apply (intro conjI impI)
  subgoal by (simp add: ascii_block_omitted ascii_slab_filter)
  subgoal by (simp add: ascii_block_rendered ascii_slab_filter)
  subgoal by (rule ascii_lines_section_blocks)
  done

lemma pocket_line_total: "\<exists>ls. pocket_line all_verts b z_target = Inr ls"
  by (auto simp: pocket_line_def detect_pockets_def Let_def bind_exn_def split: option.splits)

lemma report_total: "\<exists>ls. report filepath filesize fmt triangles = Inr ls"
  by (simp add: report_def Let_def ascii_lines_section_blocks bind_exn_def pocket_lines_def
      for_each_Inr pocket_line_total)

text \<open>
  Claim C1.  For a path that exists and a file whose parse yields no triangle, the
  program prints the line ``Error: No triangles found in file.'' and ends with the exit
  code 0: \<open>analyze\<close> returns after the message and the script reaches its end.
\<close>

theorem empty_mesh_exit_status:
  assumes "fs path = Some file" and "load rt file = Inr ([], fmt)"
  shows "main rt fs prog (path # others) = ([[Str ''Error: No triangles found in file.'']], Exit 0) \<and>
         exit_code (snd (main rt fs prog (path # others))) = 0"
  using assms by (simp add: main_def analyze_def bind_exn_def)

theorem empty_mesh_exit_status_witness:
  "main \<lparr> unpack_f = (\<lambda>w. real (unat w)), text_lines = (\<lambda>b. Inr []), to_float = (\<lambda>s. None) \<rparr>
        (\<lambda>p. if p = lit ''empty.stl'' then Some (replicate 84 0) else None)
        (lit ''analyze-stl.py'') [lit ''empty.stl'']
     = ([[Str ''Error: No triangles found in file.'']], Exit 0)"
proof -
  let ?rt = "\<lparr> unpack_f = (\<lambda>w. real (unat w)), text_lines = (\<lambda>b. Inr []), to_float = (\<lambda>s. None) \<rparr>"
  let ?fs = "\<lambda>p. if p = lit ''empty.stl'' then Some (replicate 84 (0::byte)) else None"
  have stored: "?fs (lit ''empty.stl'') = Some (replicate 84 0)"
    by simp
  have binary: "\<not> is_ascii_stl (replicate 84 0)"
    by (simp add: is_ascii_stl_def lstrip_bytes_def bytes_space_def startswith_def solid_def)
  have parsed: "load ?rt (replicate 84 0) = Inr ([], ''Binary'')"
    by (simp add: load_def binary read_binary_stl_def unpack_I_def read_triangles_short
        bind_exn_def)
  show ?thesis
    using stored parsed
      empty_mesh_exit_status [of ?fs "lit ''empty.stl''" "replicate 84 0" ?rt "''Binary''"
        "lit ''analyze-stl.py''" "[]"]
    by simp
qed

text \<open>
  Whenever the file is read without an exception, the run ends with the exit code 0,
  the mesh empty or not.
\<close>

lemma main_exit_ok:
  assumes "fs path = Some file" and "load rt file = Inr (triangles, fmt)"
  shows "exit_code (snd (main rt fs prog (path # others))) = 0"
proof (cases "triangles = []")
  case True
  then show ?thesis
    using assms by (simp add: main_def analyze_def bind_exn_def)
next
  case False
  obtain ls where "report path (length file) fmt triangles = Inr ls"
    using report_total by blast
  then show ?thesis
    using assms False by (simp add: main_def analyze_def bind_exn_def)
qed

section \<open>Examples\<close>

text \<open>
  A ring of dense cells around the sparse cell \<open>(1, 1)\<close>, and a sparse cell outside the
  ring: the only candidate is \<open>(1, 1)\<close>, reported by its centre \<open>(3, 3)\<close>.
\<close>

theorem pocket_candidates_witness:
  "empty_interior 2
     [((0, 0), 3), ((0, 1), 4), ((0, 2), 3), ((1, 0), 3), ((1, 1), 2),
      ((1, 2), 5), ((2, 0), 3), ((2, 1), 3), ((2, 2), 3), ((3, 1), 1)] = [(3, 3)]"
proof -
  let ?G = "[((0, 0), 3), ((0, 1), 4), ((0, 2), 3), ((1, 0), 3), ((1, 1), 2),
             ((1, 2), 5), ((2, 0), 3), ((2, 1), 3), ((2, 2), 3), ((3, 1), 1)]
            :: (cell \<times> nat) list"
  have occupied: "?G \<noteq> []"
    by simp
  have range: "spanned_cells ?G =
      [(0, 0), (0, 1), (0, 2), (1, 0), (1, 1), (1, 2),
       (2, 0), (2, 1), (2, 2), (3, 0), (3, 1), (3, 2)]"
    by (simp add: spanned_cells_def upto.simps)
  have candidates: "filter (spec_candidate ?G) (spanned_cells ?G) = [(1, 1)]"
    unfolding range by (simp add: spec_candidate_def hit_count_def neighbours8_def)
  have "empty_interior 2 ?G = map (cell_centre 2) (filter (spec_candidate ?G) (spanned_cells ?G))"
    by (rule pocket_candidates [OF occupied, of 2, THEN conjunct1])
  also have "\<dots> = [(3, 3)]"
    unfolding candidates by (simp add: cell_centre_def)
  finally show ?thesis .
qed

text \<open>
  A file of 84 bytes that starts with \<^verbatim>\<open>solid\<close> and a null byte: it is read as binary.
\<close>

theorem format_detection_witness:
  "\<not> is_ascii_stl (solid @ 0 # replicate 78 32) \<and>
   load \<lparr> unpack_f = (\<lambda>w. real (unat w)), text_lines = (\<lambda>b. Inr []), to_float = (\<lambda>s. None) \<rparr>
     (solid @ 0 # replicate 78 32) = Inr ([], ''Binary'')"
  using format_detection [of "solid @ 0 # replicate 78 32" "replicate 78 32"
      "\<lparr> unpack_f = (\<lambda>w. real (unat w)), text_lines = (\<lambda>b. Inr []), to_float = (\<lambda>s. None) \<rparr>",
      THEN conjunct2]
  by (simp add: read_binary_stl_def unpack_I_def read_triangles_short solid_def)

text \<open>
  60000 triangles: the polyhedron conversion, with the ratio one third.
\<close>

theorem recommendation_precedence_witness:
  "announced (recommendation 60000 10 50) = Some (Polyhedron (Some (1 / 3)))"
  using recommendation_precedence [of 60000 10 50, THEN conjunct1]
  by (simp add: spec_recommendation_def)

text \<open>
  Five triangles: two top, one bottom, one vertical, one angled.
\<close>

theorem normal_classes_partition_witness:
  "count_normals
     [((0, 0, 1), (0, 0, 0), (1, 0, 0), (0, 1, 0)),
      ((0, 0, - 1), (0, 0, 0), (0, 1, 0), (1, 0, 0)),
      ((1, 0, 0), (0, 0, 0), (0, 1, 0), (0, 0, 1)),
      ((0, 0.6, 0.8), (0, 0, 0), (1, 0, 0), (0, 4, - 3)),
      ((0, 0, 0.95), (0, 0, 0), (1, 0, 0), (0, 1, 0))] = (2, 1, 1, 1)"
  using normal_classes_partition [of "((0, 0, 1), (0, 0, 0), (1, 0, 0), (0, 1, 0))"
     "[((0, 0, 1), (0, 0, 0), (1, 0, 0), (0, 1, 0)),
       ((0, 0, - 1), (0, 0, 0), (0, 1, 0), (1, 0, 0)),
       ((1, 0, 0), (0, 0, 0), (0, 1, 0), (0, 0, 1)),
       ((0, 0.6, 0.8), (0, 0, 0), (1, 0, 0), (0, 4, - 3)),
       ((0, 0, 0.95), (0, 0, 0), (1, 0, 0), (0, 1, 0))]", THEN conjunct2, THEN conjunct1]
  by (simp add: class_count_def tri_normal_def pz_def)

text \<open>
  Eleven vertices and the target height 0.  In the first list a vertex lies at exactly
  0.25 from the target and 9 are selected; in the second it lies at 0.24 and 10 are.
\<close>

theorem slice_threshold_witness:
  "analyze_slice
     [(6, 8, 0), (- 6, - 8, 0), (3, 4, 0), (- 3, - 4, 0.1), (4, 3, - 0.1), (- 4, - 3, 0),
      (3, - 4, 0.2), (- 3, 4, 0), (5, 0, 0), (0, 5, 0.25), (9, 9, 1)] 0 0.25 = None \<and>
   analyze_slice
     [(6, 8, 0), (- 6, - 8, 0), (3, 4, 0), (- 3, - 4, 0.1), (4, 3, - 0.1), (- 4, - 3, 0),
      (3, - 4, 0.2), (- 3, 4, 0), (5, 0, 0), (0, 5, 0.24), (9, 9, 1)] 0 0.25 \<noteq> None"
proof -
  let ?nine = "[(6, 8, 0), (- 6, - 8, 0), (3, 4, 0), (- 3, - 4, 0.1), (4, 3, - 0.1), (- 4, - 3, 0),
      (3, - 4, 0.2), (- 3, 4, 0), (5, 0, 0), (0, 5, 0.25), (9, 9, 1)] :: real point list"
  let ?ten = "[(6, 8, 0), (- 6, - 8, 0), (3, 4, 0), (- 3, - 4, 0.1), (4, 3, - 0.1), (- 4, - 3, 0),
      (3, - 4, 0.2), (- 3, 4, 0), (5, 0, 0), (0, 5, 0.24), (9, 9, 1)] :: real point list"
  have nine: "length (slab ?nine 0 0.25) = 9"
    by (simp add: slab_def pz_def)
  have ten: "length (slab ?ten 0 0.25) = 10"
    by (simp add: slab_def pz_def)
  have "analyze_slice ?nine 0 0.25 = None"
    using slice_threshold [of ?nine 0 "0.25", THEN conjunct2, THEN conjunct2, THEN conjunct1] nine
    by blast
  moreover have "analyze_slice ?ten 0 0.25 \<noteq> None"
    using slice_threshold [of ?ten 0 "0.25", THEN conjunct2, THEN conjunct2, THEN conjunct2,
        THEN conjunct1] ten
    by blast
  ultimately show ?thesis by blast
qed

text \<open>
  Ten selected points: two at distance 10 from the midpoint \<open>(0, 0)\<close> of their bounding box
  and eight at distance 5.  The centroid of the points is not \<open>(0, 0)\<close>.
\<close>

theorem slice_shape_witness:
  "\<exists>info. analyze_slice
       [(6, 8, 0), (- 6, - 8, 0), (3, 4, 0), (- 3, - 4, 0.1), (4, 3, - 0.1), (- 4, - 3, 0),
        (3, - 4, 0.2), (- 3, 4, 0), (5, 0, 0), (0, 5, 0.24), (9, 9, 1)] 0 0.25 = Some info \<and>
     s_center info = (0, 0) \<and> s_avg_radius info = 6 \<and> s_variation info = 1 / 3 \<and>
     s_shape info = ''irregular''"
proof -
  let ?vs = "[(6, 8, 0), (- 6, - 8, 0), (3, 4, 0), (- 3, - 4, 0.1), (4, 3, - 0.1), (- 4, - 3, 0),
      (3, - 4, 0.2), (- 3, 4, 0), (5, 0, 0), (0, 5, 0.24), (9, 9, 1)] :: real point list"
  have pts: "slab ?vs 0 0.25 =
      [(6, 8), (- 6, - 8), (3, 4), (- 3, - 4), (4, 3), (- 4, - 3), (3, - 4), (- 3, 4), (5, 0), (0, 5)]"
    by (simp add: slab_def px_def py_def pz_def)
  have enough: "10 \<le> length (slab ?vs 0 0.25)"
    unfolding pts by simp
  have mid: "bbox_midpoint (slab ?vs 0 0.25) = (0, 0)"
    unfolding pts by (simp add: bbox_midpoint_def)
  have ds: "distances (0, 0) (slab ?vs 0 0.25) = [10, 10, 5, 5, 5, 5, 5, 5, 5, 5]"
    unfolding pts by (simp add: distances_def euclidean_def)
  have var: "variationCoefficient [10, 10, 5, 5, 5, 5, 5, 5, 5, 5] = 1 / 3"
    by (simp add: variationCoefficient_def population_sd_def mean_def)
  have avg: "mean [10, 10, 5, 5, 5, 5, 5, 5, 5, 5] = 6"
    by (simp add: mean_def)
  have lab: "label_text (spec_label (1 / 3)) = ''irregular''"
    by (simp add: spec_label_def)
  from slice_shape [OF enough] obtain info where
    "analyze_slice ?vs 0 0.25 = Some info"
    "s_center info = bbox_midpoint (slab ?vs 0 0.25)"
    "s_avg_radius info = mean (distances (s_center info) (slab ?vs 0 0.25))"
    "s_variation info = variationCoefficient (distances (s_center info) (slab ?vs 0 0.25))"
    "s_shape info = label_text (spec_label (s_variation info))"
    by blast
  then have "analyze_slice ?vs 0 0.25 = Some info \<and>
     s_center info = (0, 0) \<and> s_avg_radius info = 6 \<and> s_variation info = 1 / 3 \<and>
     s_shape info = ''irregular''"
    by (simp only: mid ds var avg lab simp_thms)
  then show ?thesis by blast
qed

text \<open>
  A mesh of height 5: the tolerance is 0.25, and 9 or 10 vertices lie at the height 0.
\<close>

theorem ascii_block_threshold_witness:
  "ascii_block (replicate 9 (0, 0, 0) @ [(1, 1, 5)])
     \<lparr> min_x = 0, max_x = 1, min_y = 0, max_y = 1, min_z = 0, max_z = 5 \<rparr> 0 = Inr [] \<and>
   (\<exists>rows. ascii_block (replicate 10 (0, 0, 0) @ [(1, 1, 5)])
     \<lparr> min_x = 0, max_x = 1, min_y = 0, max_y = 1, min_z = 0, max_z = 5 \<rparr> 0 =
       Inr ((Str ''  '' # ascii_label 0) # rows))"
proof -
  let ?b = "\<lparr> min_x = 0, max_x = 1, min_y = 0, max_y = 1, min_z = 0, max_z = 5 \<rparr>"
  let ?in_slab = "\<lambda>v :: real point. \<bar>pz v - 0\<bar> < max 0.25 ((max_z ?b - min_z ?b) * 0.03)"
  have nine: "length (filter ?in_slab (replicate 9 (0, 0, 0) @ [(1, 1, 5)])) < 10"
    by (simp add: pz_def)
  have ten: "10 \<le> length (filter ?in_slab (replicate 10 (0, 0, 0) @ [(1, 1, 5)]))"
    by (simp add: pz_def)
  show ?thesis
    using nine ten
      ascii_block_threshold [of 0 ?b "replicate 9 (0, 0, 0) @ [(1, 1, 5)]", THEN conjunct1]
      ascii_block_threshold [of 0 ?b "replicate 10 (0, 0, 0) @ [(1, 1, 5)]", THEN conjunct2,
        THEN conjunct1]
    by blast
qed

end
